theory Spec2Isabelle
  imports Complex_Main "HOL-Library.Word"
begin

unbundle bit_operations_syntax

section \<open>Python values\<close>

text \<open>
  A Python \<open>bytes\<close> object is a list of 8-bit words. A Python \<open>str\<close> is a list of
  Unicode code points (natural numbers): \<open>len\<close> counts code points, and
  \<open>bytes.decode\<close> produces them. String literals of the source are written with
  \<open>lit\<close>, which reads an ASCII literal as its code points.
\<close>

type_synonym byte = "8 word"
type_synonym bytes = "byte list"
type_synonym str = "nat list"

definition lit :: "string \<Rightarrow> str" where
  "lit s = map of_char s"

text \<open>
  The values the request handler returns: integers, strings, dictionaries with literal
  keys (in the order the source writes them) and tuples.
\<close>

datatype py_value =
    PyInt int
  | PyStr str
  | PyDict "(string \<times> py_value) list"
  | PyTuple "py_value list"

text \<open>
  The exceptions raised by the code under \<open>src/backend\<close>, each with its message:
  \<open>ValueError\<close> (raised by \<open>extract_text\<close>), the plain \<open>Exception\<close> that
  \<open>load_pdf\<close> and \<open>load_docx\<close> raise, and \<open>OSError\<close> (raised by \<open>open\<close>).
\<close>

datatype py_exception =
    ValueError str
  | Exception str
  | OSError str

subsection \<open>\<open>str.strip()\<close>\<close>

text \<open>
  \<open>str.strip()\<close> without an argument removes leading and trailing whitespace, where
  whitespace is what \<open>str.isspace\<close> accepts: the code points below.
\<close>

definition isspace :: "nat \<Rightarrow> bool" where
  "isspace c =
     ((0x09 \<le> c \<and> c \<le> 0x0D) \<or> (0x1C \<le> c \<and> c \<le> 0x20) \<or> c = 0x85 \<or> c = 0xA0 \<or>
      c = 0x1680 \<or> (0x2000 \<le> c \<and> c \<le> 0x200A) \<or> c = 0x2028 \<or> c = 0x2029 \<or>
      c = 0x202F \<or> c = 0x205F \<or> c = 0x3000)"

definition strip :: "str \<Rightarrow> str" where
  "strip s = rev (dropWhile isspace (rev (dropWhile isspace s)))"

subsection \<open>\<open>str.lower()\<close>, \<open>str.join\<close>\<close>

text \<open>
  \<open>lower\<close> maps the ASCII capitals to their small letters and leaves every other
  code point as it is. Python also lowers capitals beyond ASCII; none of them lowers to
  a letter of \<open>.pdf\<close> or \<open>.docx\<close>, so the comparisons of the source with these two
  literals are decided as Python decides them.
\<close>

definition lower_cp :: "nat \<Rightarrow> nat" where
  "lower_cp c = (if 0x41 \<le> c \<and> c \<le> 0x5A then c + 0x20 else c)"

definition lower :: "str \<Rightarrow> str" where
  "lower s = map lower_cp s"

fun join :: "str \<Rightarrow> str list \<Rightarrow> str" where
  "join sep [] = []"
| "join sep [x] = x"
| "join sep (x # y # ys) = x @ sep @ join sep (y # ys)"

subsection \<open>\<open>pathlib.Path(p).suffix\<close>\<close>

text \<open>
  \<open>Path(p).name\<close> on a POSIX system: the last component of the path between slashes,
  empty components and \<open>.\<close> components dropped; the empty string when none is left.
\<close>

fun split_on :: "nat \<Rightarrow> str \<Rightarrow> str list" where
  "split_on sep [] = [[]]"
| "split_on sep (c # cs) =
     (if c = sep then [] # split_on sep cs
      else (case split_on sep cs of [] \<Rightarrow> [[c]] | p # ps \<Rightarrow> (c # p) # ps))"

definition path_name :: "str \<Rightarrow> str" where
  "path_name p =
     (case rev (filter (\<lambda>part. part \<noteq> [] \<and> part \<noteq> lit ''.'') (split_on 0x2F p)) of
        [] \<Rightarrow> []
      | n # _ \<Rightarrow> n)"

text \<open>
  \<open>name.rfind('.')\<close>: the index of the last dot, \<open>None\<close> for Python's \<open>-1\<close>.
\<close>

definition rfind_dot :: "str \<Rightarrow> nat option" where
  "rfind_dot name =
     (case filter (\<lambda>i. name ! i = 0x2E) (rev [0..<length name]) of
        [] \<Rightarrow> None
      | i # _ \<Rightarrow> Some i)"

text \<open>
  \<open>suffix\<close>: with \<open>i = name.rfind('.')\<close>, the text \<open>name[i:]\<close> if
  \<open>0 < i < len(name) - 1\<close>, else the empty string.
\<close>

definition suffix :: "str \<Rightarrow> str" where
  "suffix p =
     (let name = path_name p in
      case rfind_dot name of
        None \<Rightarrow> []
      | Some i \<Rightarrow> if 0 < i \<and> i + 1 < length name then drop i name else [])"

subsection \<open>\<open>bytes.decode('utf-8', errors='ignore')\<close>\<close>

text \<open>
  The decoder reads one sequence at a time. A byte that cannot start a sequence is
  skipped. When a continuation byte is wrong, the bytes of the sequence read so far are
  skipped and decoding resumes at the offending byte. A sequence cut off by the end of
  the data is dropped. Overlong forms, surrogates and code points above \<open>0x10FFFF\<close> are
  refused at the second byte.
\<close>

definition is_cont :: "byte \<Rightarrow> bool" where
  "is_cont b = (0x80 \<le> b \<and> b \<le> 0xBF)"

definition cont_bits :: "byte \<Rightarrow> nat" where
  "cont_bits b = unat (b AND 0x3F)"

fun utf8_decode_ignore :: "bytes \<Rightarrow> str" where
  "utf8_decode_ignore [] = []"
| "utf8_decode_ignore (b0 # bs) =
     (if b0 < 0x80 then unat b0 # utf8_decode_ignore bs
      else if b0 < 0xC2 then utf8_decode_ignore bs
      else if b0 < 0xE0 then
        (case bs of
           [] \<Rightarrow> []
         | b1 # r1 \<Rightarrow>
             if is_cont b1
             then (unat (b0 AND 0x1F) * 64 + cont_bits b1) # utf8_decode_ignore r1
             else utf8_decode_ignore bs)
      else if b0 < 0xF0 then
        (case bs of
           [] \<Rightarrow> []
         | b1 # r1 \<Rightarrow>
             if is_cont b1 \<and> (if b1 < 0xA0 then b0 \<noteq> 0xE0 else b0 \<noteq> 0xED)
             then
               (case r1 of
                  [] \<Rightarrow> []
                | b2 # r2 \<Rightarrow>
                    if is_cont b2
                    then (unat (b0 AND 0x0F) * 4096 + cont_bits b1 * 64 + cont_bits b2)
                           # utf8_decode_ignore r2
                    else utf8_decode_ignore r1)
             else utf8_decode_ignore bs)
      else if b0 < 0xF5 then
        (case bs of
           [] \<Rightarrow> []
         | b1 # r1 \<Rightarrow>
             if is_cont b1 \<and> (if b1 < 0x90 then b0 \<noteq> 0xF0 else b0 \<noteq> 0xF4)
             then
               (case r1 of
                  [] \<Rightarrow> []
                | b2 # r2 \<Rightarrow>
                    if is_cont b2
                    then
                      (case r2 of
                         [] \<Rightarrow> []
                       | b3 # r3 \<Rightarrow>
                           if is_cont b3
                           then (unat (b0 AND 0x07) * 262144 + cont_bits b1 * 4096
                                   + cont_bits b2 * 64 + cont_bits b3)
                                  # utf8_decode_ignore r3
                           else utf8_decode_ignore r2)
                    else utf8_decode_ignore r1)
             else utf8_decode_ignore bs)
      else utf8_decode_ignore bs)"

text \<open>The UTF-8 encoding of an ASCII literal, for writing uploads down.\<close>

definition ascii :: "string \<Rightarrow> bytes" where
  "ascii s = map of_char s"

section \<open>The world the program runs in\<close>

text \<open>
  The class \<open>Document\<close> of \<open>models.py\<close>: one row of the table \<open>documents\<close>. The
  timestamp is a number of seconds.
\<close>

record document =
  id_col :: nat
  filename_col :: str
  upload_timestamp :: nat
  file_hash :: str

text \<open>
  What the functions below do to their environment is recorded as events: a file opened
  for reading, a text handed to the embedding model, a line printed.
\<close>

datatype event =
    Open_called str
  | Encode_called str
  | Print_called str

record world =
  files :: "str \<rightharpoonup> bytes"
  dirs :: "str set"
  documents :: "document list"
  events :: "event list"

definition log_event :: "event list \<Rightarrow> world \<Rightarrow> world" where
  "log_event es w = w\<lparr>events := events w @ es\<rparr>"

text \<open>
  The message of the \<open>FileNotFoundError\<close> that \<open>open\<close> raises for a path that names no
  file (for a path that \<open>repr\<close> prints without escapes).
\<close>

definition no_such_file :: "str \<Rightarrow> str" where
  "no_such_file p = lit ''[Errno 2] No such file or directory: '' @ [0x27] @ p @ [0x27]"

section \<open>\<open>nlp_engine.py\<close>\<close>

subsection \<open>\<open>PlagiarismDetector.compute_similarity\<close>\<close>

text \<open>
  The detector holds the embedding model; \<open>model self t\<close> is the vector
  \<open>self.model.encode(t, convert_to_numpy=True)\<close>. Vectors are lists of reals: the
  arithmetic below is exact, where the program computes in floating point.
\<close>

record plagiarism_detector =
  model :: "str \<Rightarrow> real list"

text \<open>
  \<open>sklearn.metrics.pairwise.cosine_similarity\<close> on two rows: both are divided by their
  Euclidean norm (a norm of zero is replaced by one), then multiplied. A row without
  features, or two rows of different lengths, are refused with a \<open>ValueError\<close>.
\<close>

definition row_norm :: "real list \<Rightarrow> real" where
  "row_norm x = sqrt (sum_list (map (\<lambda>v. v * v) x))"

definition normalize :: "real list \<Rightarrow> real list" where
  "normalize x = (let n = row_norm x in map (\<lambda>v. v / (if n = 0 then 1 else n)) x)"

definition dot :: "real list \<Rightarrow> real list \<Rightarrow> real" where
  "dot x y = sum_list (map2 (*) x y)"

definition cosine_similarity :: "real list \<Rightarrow> real list \<Rightarrow> py_exception + real" where
  "cosine_similarity x y =
     (if x = [] \<or> y = [] then Inl (ValueError (lit ''Found array with 0 feature(s)''))
      else if length x \<noteq> length y
      then Inl (ValueError (lit ''Incompatible dimension for X and Y matrices''))
      else Inr (dot (normalize x) (normalize y)))"

text \<open>
  \<open>round(x, 2)\<close>: the nearest multiple of one hundredth, a tie going to the even one.
\<close>

definition round2 :: "real \<Rightarrow> real" where
  "round2 x =
     (let y = x * 100; f = \<lfloor>y\<rfloor>; d = y - of_int f in
      if d < 1 / 2 then of_int f / 100
      else if 1 / 2 < d then of_int (f + 1) / 100
      else if even f then of_int f / 100
      else of_int (f + 1) / 100)"

definition compute_similarity ::
  "plagiarism_detector \<Rightarrow> str \<Rightarrow> str \<Rightarrow> world \<Rightarrow> (py_exception + real) \<times> world" where
  "compute_similarity self text1 text2 w =
     (if strip text1 = [] \<or> strip text2 = [] then (Inr 0, w)
      else
        let embedding1 = model self text1;
            embedding2 = model self text2;
            w' = log_event [Encode_called text1, Encode_called text2] w
        in case cosine_similarity embedding1 embedding2 of
             Inl e \<Rightarrow> (Inl e, w')
           | Inr similarity \<Rightarrow> (Inr (round2 (similarity * 100)), w'))"

text \<open>
  The wording of the specification for the score: the dot product over the product of
  the norms, times 100, rounded to two decimals.
\<close>

definition spec_score :: "real list \<Rightarrow> real list \<Rightarrow> real" where
  "spec_score x y = round2 (dot x y / (row_norm x * row_norm y) * 100)"

subsection \<open>\<open>load_pdf\<close>, \<open>load_docx\<close>, \<open>extract_text\<close>\<close>

text \<open>
  The parsing libraries are outside the repository. \<open>pdf_reader libs data\<close> is what
  \<open>PdfReader\<close> and \<open>page.extract_text()\<close> give for a file with the bytes \<open>data\<close>: the
  texts of its pages, or the message of the exception they raise. \<open>docx_document\<close> is
  the same for \<open>docx.Document\<close> and the texts of its paragraphs.
\<close>

record parsers =
  pdf_reader :: "bytes \<Rightarrow> str + str list"
  docx_document :: "bytes \<Rightarrow> str + str list"

definition newline :: str where
  "newline = [0x0A]"

text \<open>
  \<open>load_pdf\<close>: every exception of the body, the one of \<open>open\<close> included, is raised
  again as a plain \<open>Exception\<close>.
\<close>

definition load_pdf :: "parsers \<Rightarrow> str \<Rightarrow> world \<Rightarrow> (py_exception + str) \<times> world" where
  "load_pdf libs file_path w =
     (let w' = log_event [Open_called file_path] w in
      case files w file_path of
        None \<Rightarrow>
          (Inl (Exception (lit ''Error reading PDF file: '' @ no_such_file file_path)), w')
      | Some data \<Rightarrow>
          (case pdf_reader libs data of
             Inl e \<Rightarrow> (Inl (Exception (lit ''Error reading PDF file: '' @ e)), w')
           | Inr pages \<Rightarrow>
               (Inr (strip (foldl (\<lambda>text page. text @ page @ newline) [] pages)), w')))"

text \<open>
  \<open>load_docx\<close>: \<open>docx.Document\<close> opens the file itself and raises
  \<open>PackageNotFoundError\<close> when there is none.
\<close>

definition load_docx :: "parsers \<Rightarrow> str \<Rightarrow> world \<Rightarrow> (py_exception + str) \<times> world" where
  "load_docx libs file_path w =
     (let w' = log_event [Open_called file_path] w in
      case files w file_path of
        None \<Rightarrow>
          (Inl (Exception (lit ''Error reading DOCX file: '' @ lit ''Package not found at ''
                            @ [0x27] @ file_path @ [0x27])), w')
      | Some data \<Rightarrow>
          (case docx_document libs data of
             Inl e \<Rightarrow> (Inl (Exception (lit ''Error reading DOCX file: '' @ e)), w')
           | Inr paragraphs \<Rightarrow> (Inr (strip (join newline paragraphs)), w')))"

definition extract_text :: "parsers \<Rightarrow> str \<Rightarrow> world \<Rightarrow> (py_exception + str) \<times> world" where
  "extract_text libs file_path w =
     (let file_extension = lower (suffix file_path) in
      if file_extension = lit ''.pdf'' then load_pdf libs file_path w
      else if file_extension = lit ''.docx'' then load_docx libs file_path w
      else
        (Inl (ValueError (lit ''Unsupported file format: '' @ file_extension
                           @ lit ''. Supported formats: .pdf, .docx'')), w))"

text \<open>
  The wording of the specification for the PDF case: the page texts with newlines
  between them, trimmed at the two ends.
\<close>

definition pages_joined_and_trimmed :: "str list \<Rightarrow> str" where
  "pages_joined_and_trimmed pages = strip (join newline pages)"

subsection \<open>SHA-256 (\<open>hashlib.sha256\<close>)\<close>

text \<open>
  The hash function of FIPS 180-4 on 32-bit words: the round constants, the six logical
  functions, the message schedule, the compression of one 64-byte block, the padding.
\<close>

type_synonym w32 = "32 word"

definition K256 :: "w32 list" where
  "K256 = [
   0x428a2f98, 0x71374491, 0xb5c0fbcf, 0xe9b5dba5, 0x3956c25b, 0x59f111f1, 0x923f82a4, 0xab1c5ed5,
   0xd807aa98, 0x12835b01, 0x243185be, 0x550c7dc3, 0x72be5d74, 0x80deb1fe, 0x9bdc06a7, 0xc19bf174,
   0xe49b69c1, 0xefbe4786, 0x0fc19dc6, 0x240ca1cc, 0x2de92c6f, 0x4a7484aa, 0x5cb0a9dc, 0x76f988da,
   0x983e5152, 0xa831c66d, 0xb00327c8, 0xbf597fc7, 0xc6e00bf3, 0xd5a79147, 0x06ca6351, 0x14292967,
   0x27b70a85, 0x2e1b2138, 0x4d2c6dfc, 0x53380d13, 0x650a7354, 0x766a0abb, 0x81c2c92e, 0x92722c85,
   0xa2bfe8a1, 0xa81a664b, 0xc24b8b70, 0xc76c51a3, 0xd192e819, 0xd6990624, 0xf40e3585, 0x106aa070,
   0x19a4c116, 0x1e376c08, 0x2748774c, 0x34b0bcb5, 0x391c0cb3, 0x4ed8aa4a, 0x5b9cca4f, 0x682e6ff3,
   0x748f82ee, 0x78a5636f, 0x84c87814, 0x8cc70208, 0x90befffa, 0xa4506ceb, 0xbef9a3f7, 0xc67178f2]"

definition rotr :: "nat \<Rightarrow> w32 \<Rightarrow> w32" where
  "rotr n x = drop_bit n x OR push_bit (32 - n) x"

definition Ch :: "w32 \<Rightarrow> w32 \<Rightarrow> w32 \<Rightarrow> w32" where
  "Ch x y z = (x AND y) XOR (NOT x AND z)"

definition Maj :: "w32 \<Rightarrow> w32 \<Rightarrow> w32 \<Rightarrow> w32" where
  "Maj x y z = (x AND y) XOR (x AND z) XOR (y AND z)"

definition Sigma0 :: "w32 \<Rightarrow> w32" where
  "Sigma0 x = rotr 2 x XOR rotr 13 x XOR rotr 22 x"

definition Sigma1 :: "w32 \<Rightarrow> w32" where
  "Sigma1 x = rotr 6 x XOR rotr 11 x XOR rotr 25 x"

definition sigma0 :: "w32 \<Rightarrow> w32" where
  "sigma0 x = rotr 7 x XOR rotr 18 x XOR drop_bit 3 x"

definition sigma1 :: "w32 \<Rightarrow> w32" where
  "sigma1 x = rotr 17 x XOR rotr 19 x XOR drop_bit 10 x"

type_synonym hstate = "w32 \<times> w32 \<times> w32 \<times> w32 \<times> w32 \<times> w32 \<times> w32 \<times> w32"

definition H0 :: hstate where
  "H0 = (0x6a09e667, 0xbb67ae85, 0x3c6ef372, 0xa54ff53a,
         0x510e527f, 0x9b05688c, 0x1f83d9ab, 0x5be0cd19)"

text \<open>
  The message schedule, newest word first: from the sixteen words of the block,
  \<open>schedule 48\<close> computes the other forty-eight.
\<close>

fun schedule :: "nat \<Rightarrow> w32 list \<Rightarrow> w32 list" where
  "schedule 0 ws = ws"
| "schedule (Suc n) ws =
     schedule n ((sigma1 (ws ! 1) + ws ! 6 + sigma0 (ws ! 14) + ws ! 15) # ws)"

fun round256 :: "hstate \<Rightarrow> w32 \<times> w32 \<Rightarrow> hstate" where
  "round256 (a, b, c, d, e, f, g, h) (k, x) =
     (let t1 = h + Sigma1 e + Ch e f g + k + x;
          t2 = Sigma0 a + Maj a b c
      in (t1 + t2, a, b, c, d + t1, e, f, g))"

definition be32 :: "byte \<Rightarrow> byte \<Rightarrow> byte \<Rightarrow> byte \<Rightarrow> w32" where
  "be32 a b c d = push_bit 24 (ucast a) OR push_bit 16 (ucast b) OR push_bit 8 (ucast c) OR ucast d"

fun words_of :: "bytes \<Rightarrow> w32 list" where
  "words_of (a # b # c # d # r) = be32 a b c d # words_of r"
| "words_of _ = []"

fun add_state :: "hstate \<Rightarrow> hstate \<Rightarrow> hstate" where
  "add_state (a, b, c, d, e, f, g, h) (a', b', c', d', e', f', g', h') =
     (a + a', b + b', c + c', d + d', e + e', f + f', g + g', h + h')"

definition compress :: "hstate \<Rightarrow> bytes \<Rightarrow> hstate" where
  "compress H block =
     (let ws = rev (schedule 48 (rev (words_of block)))
      in add_state H (foldl round256 H (zip K256 ws)))"

text \<open>
  The padding: a byte \<open>0x80\<close>, zeros up to 56 modulo 64, and the length of the message
  in bits as a 64-bit big-endian number.
\<close>

definition pad :: "bytes \<Rightarrow> bytes" where
  "pad m =
     m @ [0x80] @ replicate ((119 - length m mod 64) mod 64) 0
       @ map (\<lambda>i. ucast (drop_bit (8 * i) (word_of_nat (8 * length m) :: 64 word)))
           (rev [0..<8])"

function blocks :: "bytes \<Rightarrow> bytes list" where
  "blocks bs = (if bs = [] then [] else take 64 bs # blocks (drop 64 bs))"
  by pat_completeness auto
termination
  by (relation "measure length") auto

fun bytes_of :: "w32 \<Rightarrow> bytes" where
  "bytes_of x = [ucast (drop_bit 24 x), ucast (drop_bit 16 x), ucast (drop_bit 8 x), ucast x]"

fun digest_bytes :: "hstate \<Rightarrow> bytes" where
  "digest_bytes (a, b, c, d, e, f, g, h) = concat (map bytes_of [a, b, c, d, e, f, g, h])"

definition sha256 :: "bytes \<Rightarrow> bytes" where
  "sha256 m = digest_bytes (foldl compress H0 (blocks (pad m)))"

text \<open>
  A \<open>hashlib\<close> hash object, by its documented behaviour: it holds the bytes it was fed;
  \<open>update\<close> appends, \<open>hexdigest\<close> is the digest of all of them, two small hexadecimal
  digits a byte.
\<close>

record sha256_object =
  fed :: bytes

definition sha256_new :: sha256_object where
  "sha256_new = \<lparr>fed = []\<rparr>"

definition update :: "sha256_object \<Rightarrow> bytes \<Rightarrow> sha256_object" where
  "update h block = h\<lparr>fed := fed h @ block\<rparr>"

definition hex_digit :: "nat \<Rightarrow> nat" where
  "hex_digit n = lit ''0123456789abcdef'' ! n"

definition hex :: "bytes \<Rightarrow> str" where
  "hex bs = concat (map (\<lambda>b. [hex_digit (unat b div 16), hex_digit (unat b mod 16)]) bs)"

definition hexdigest :: "sha256_object \<Rightarrow> str" where
  "hexdigest h = hex (sha256 (fed h))"

subsection \<open>\<open>compute_file_hash\<close>\<close>

text \<open>
  The loop \<open>for byte_block in iter(lambda: f.read(4096), b"")\<close>: \<open>rest\<close> is the part of
  the file not read yet; the loop ends at the first empty block.
\<close>

function read_loop :: "sha256_object \<Rightarrow> bytes \<Rightarrow> sha256_object" where
  "read_loop sha256_hash rest =
     (let byte_block = take 4096 rest in
      if byte_block = [] then sha256_hash
      else read_loop (update sha256_hash byte_block) (drop 4096 rest))"
  by pat_completeness auto
termination
  by (relation "measure (\<lambda>(h, rest). length rest)") auto

definition compute_file_hash :: "str \<Rightarrow> world \<Rightarrow> (py_exception + str) \<times> world" where
  "compute_file_hash file_path w =
     (let w' = log_event [Open_called file_path] w in
      case files w file_path of
        None \<Rightarrow> (Inl (OSError (no_such_file file_path)), w')
      | Some data \<Rightarrow> (Inr (hexdigest (read_loop sha256_new data)), w'))"

section \<open>\<open>main.py\<close>\<close>

text \<open>
  An upload as the handler sees it: its file name, and what \<open>await file.read()\<close> gives,
  the content or an exception. The handler tests the content with
  \<open>isinstance(content, bytes)\<close>, so a content is bytes or text.
\<close>

datatype file_content =
    Bytes bytes
  | Text str

record upload_file =
  filename :: str
  read :: "py_exception + file_content"

definition str_of_exception :: "py_exception \<Rightarrow> str" where
  "str_of_exception e = (case e of ValueError m \<Rightarrow> m | Exception m \<Rightarrow> m | OSError m \<Rightarrow> m)"

text \<open>
  \<open>check_plagiarism\<close>. The body of the function starts with a \<open>try\<close> statement whose
  every branch returns: the empty-content test, the fixed result, and the handler of
  \<open>except Exception\<close>. The statements written after it in the source (the test of the
  extension, the temporary directory, the hash, the query of the table, the extraction,
  the similarity, the new row, the long response, the clean-up) are never reached, and
  the function has no parameter \<open>db\<close> they could use. The function is what the \<open>try\<close>
  statement does.
\<close>

definition check_plagiarism :: "upload_file \<Rightarrow> world \<Rightarrow> py_value \<times> world" where
  "check_plagiarism file w =
     (case read file of
        Inl e \<Rightarrow>
          (PyTuple [PyDict [(''error'', PyStr (str_of_exception e))], PyInt 500],
           log_event [Print_called (lit ''Error: '' @ str_of_exception e)] w)
      | Inr content \<Rightarrow>
          (let text_content = (case content of Bytes b \<Rightarrow> utf8_decode_ignore b | Text t \<Rightarrow> t) in
           if strip text_content = []
           then (PyDict [(''error'', PyStr (lit ''The uploaded document or text is empty.''))], w)
           else
             (PyDict [(''similarity_score'', PyInt 25),
                      (''filename'', PyStr (filename file)),
                      (''status'', PyStr (lit ''success''))], w)))"

text \<open>
  What the framework sends for a value the handler returns: status 200 and the value as
  the JSON body (a tuple becomes a JSON array). Another status needs an \<open>HTTPException\<close>
  or a response object, and \<open>check_plagiarism\<close> produces neither.
\<close>

record http_response =
  status_code :: nat
  body :: py_value

definition http_post :: "upload_file \<Rightarrow> world \<Rightarrow> http_response \<times> world" where
  "http_post file w =
     (let (v, w') = check_plagiarism file w in (\<lparr>status_code = 200, body = v\<rparr>, w'))"

text \<open>A sequence of requests, one after the other, with their responses in order.\<close>

fun serve :: "upload_file list \<Rightarrow> world \<Rightarrow> http_response list \<times> world" where
  "serve [] w = ([], w)"
| "serve (file # rest) w =
     (let (r, w') = http_post file w; (rs, w'') = serve rest w' in (r # rs, w''))"

definition dict_keys :: "py_value \<Rightarrow> string list" where
  "dict_keys v = (case v of PyDict kvs \<Rightarrow> map fst kvs | _ \<Rightarrow> [])"

text \<open>A world with no file, no directory, no row and no event.\<close>

definition world0 :: world where
  "world0 = \<lparr>files = Map.empty, dirs = {}, documents = [], events = []\<rparr>"

text \<open>
  Two worlds that hold the same three bytes under different paths, and differ in
  everything else.
\<close>

definition world_a :: world where
  "world_a = \<lparr>files = [lit ''/tmp/a/paper.pdf'' \<mapsto> ascii ''abc''],
              dirs = {}, documents = [], events = []\<rparr>"

definition world_b :: world where
  "world_b = \<lparr>files = [lit ''/srv/b/copy.docx'' \<mapsto> ascii ''abc''],
              dirs = {lit ''/srv''},
              documents = [\<lparr>id_col = 1, filename_col = lit ''old.pdf'', upload_timestamp = 1700000000,
                            file_hash = lit ''00''\<rparr>],
              events = [Print_called (lit ''later'')]\<rparr>"

text \<open>
  Parsers that read one PDF of two pages and one DOCX of two paragraphs and refuse
  every other content, and a world with five files.
\<close>

definition libs1 :: parsers where
  "libs1 = \<lparr>pdf_reader = (\<lambda>d. if d = ascii ''%PDF ok''
                              then Inr [lit '' Page one'', lit ''page two '']
                              else Inl (lit ''EOF marker not found'')),
            docx_document = (\<lambda>d. if d = ascii ''PK ok''
                                 then Inr [lit ''First'', lit ''Second'']
                                 else Inl (lit ''File is not a zip file''))\<rparr>"

definition world1 :: world where
  "world1 = \<lparr>files = [lit ''/u/REPORT.PDF'' \<mapsto> ascii ''%PDF ok'',
                      lit ''/u/thesis.docx'' \<mapsto> ascii ''PK ok'',
                      lit ''/u/broken.pdf'' \<mapsto> ascii ''%PD'',
                      lit ''/u/broken.docx'' \<mapsto> ascii ''PK'',
                      lit ''/u/essay.txt'' \<mapsto> ascii ''hello''],
             dirs = {lit ''/u''}, documents = [], events = []\<rparr>"

declare read_loop.simps [simp del]
declare blocks.simps [simp del]

section \<open>The request handler\<close>

subsection \<open>What a request leaves unchanged\<close>

lemma check_plagiarism_frame:
  "files (snd (check_plagiarism file w)) = files w \<and>
   dirs (snd (check_plagiarism file w)) = dirs w \<and>
   documents (snd (check_plagiarism file w)) = documents w"
  by (simp add: check_plagiarism_def log_event_def Let_def split: sum.splits)

lemma http_post_frame:
  "files (snd (http_post file w)) = files w \<and>
   dirs (snd (http_post file w)) = dirs w \<and>
   documents (snd (http_post file w)) = documents w"
proof -
  obtain v w' where c: "check_plagiarism file w = (v, w')"
    by (cases "check_plagiarism file w")
  then have "snd (http_post file w) = w'"
    by (simp add: http_post_def)
  with check_plagiarism_frame [of "file" w] c show ?thesis
    by simp
qed

lemma serve_frame:
  "files (snd (serve reqs w)) = files w \<and>
   dirs (snd (serve reqs w)) = dirs w \<and>
   documents (snd (serve reqs w)) = documents w"
proof (induction reqs arbitrary: w)
  case Nil
  show ?case by simp
next
  case (Cons f rest)
  obtain r w' where p: "http_post f w = (r, w')"
    by (cases "http_post f w")
  obtain rs w'' where s: "serve rest w' = (rs, w'')"
    by (cases "serve rest w'")
  from http_post_frame [of f w] p
  have 1: "files w' = files w \<and> dirs w' = dirs w \<and> documents w' = documents w"
    by simp
  from Cons.IH [of w'] s
  have 2: "files w'' = files w' \<and> dirs w'' = dirs w' \<and> documents w'' = documents w'"
    by simp
  from p s 1 2 show ?case by simp
qed

lemma hello_nonblank: "strip (utf8_decode_ignore (ascii ''hello'')) \<noteq> []"
  by (simp add: ascii_def strip_def isspace_def)

subsection \<open>Uploads with a text\<close>

text \<open>
  C2. An upload whose bytes, decoded as UTF-8 with errors ignored, are not blank gets
  status 200 and the dictionary with \<open>similarity_score\<close> 25, the file name of the
  upload and the status \<open>success\<close>, whatever the file name and the bytes are. The
  world after the request is the world before it: no file was opened (so nothing was
  hashed or extracted), no text went to the embedding model, the table and the file
  system are as they were. The response is written without the world, so nothing was
  read from it.
\<close>

theorem check_plagiarism_nonblank_upload:
  assumes "read file = Inr (Bytes b)" and "strip (utf8_decode_ignore b) \<noteq> []"
  shows "http_post file w =
           (\<lparr>status_code = 200,
             body = PyDict [(''similarity_score'', PyInt 25),
                            (''filename'', PyStr (filename file)),
                            (''status'', PyStr (lit ''success''))]\<rparr>, w)"
  using assms by (simp add: http_post_def check_plagiarism_def)

theorem check_plagiarism_nonblank_upload_witness:
  "http_post \<lparr>filename = lit ''notes.docx'', read = Inr (Bytes (ascii ''hello''))\<rparr> world0 =
     (\<lparr>status_code = 200,
       body = PyDict [(''similarity_score'', PyInt 25),
                      (''filename'', PyStr (lit ''notes.docx'')),
                      (''status'', PyStr (lit ''success''))]\<rparr>, world0)"
  using check_plagiarism_nonblank_upload
          [of "\<lparr>filename = lit ''notes.docx'', read = Inr (Bytes (ascii ''hello''))\<rparr>"
              "ascii ''hello''" world0]
        hello_nonblank
  by simp

subsection \<open>Uploads that the specification refuses\<close>

text \<open>
  C1. The claim asks for status 400 and a \<open>detail\<close> body when the extension is not
  \<open>.pdf\<close> or \<open>.docx\<close>, or when the content is blank. The handler answers
  \<open>essay.txt\<close> with status 200 and the fixed result, and a blank \<open>paper.pdf\<close> with
  status 200 and an \<open>error\<close> entry.
\<close>

theorem check_plagiarism_accepts_essay_txt:
  "lower (suffix (lit ''essay.txt'')) = lit ''.txt'' \<and>
   http_post \<lparr>filename = lit ''essay.txt'', read = Inr (Bytes (ascii ''hello''))\<rparr> w =
     (\<lparr>status_code = 200,
       body = PyDict [(''similarity_score'', PyInt 25),
                      (''filename'', PyStr (lit ''essay.txt'')),
                      (''status'', PyStr (lit ''success''))]\<rparr>, w) \<and>
   http_post \<lparr>filename = lit ''paper.pdf'', read = Inr (Bytes (ascii ''   ''))\<rparr> w =
     (\<lparr>status_code = 200,
       body = PyDict [(''error'', PyStr (lit ''The uploaded document or text is empty.''))]\<rparr>,
      w)"
  by (simp add: http_post_def check_plagiarism_def ascii_def strip_def isspace_def
        lit_def lower_def lower_cp_def suffix_def path_name_def rfind_dot_def)

subsection \<open>The fields of the response\<close>

text \<open>
  C3. The claim lists eight fields of a successful response (\<open>message\<close>,
  \<open>document_id\<close>, \<open>filename\<close>, \<open>upload_timestamp\<close>, \<open>similarity_score\<close>,
  \<open>similarity_percentage\<close>, \<open>file_hash\<close>, \<open>text_extracted_length\<close>). The response
  to a PDF upload has three: \<open>similarity_score\<close>, \<open>filename\<close> and \<open>status\<close>.
\<close>

theorem check_plagiarism_response_fields:
  "dict_keys (body (fst (http_post
       \<lparr>filename = lit ''paper.pdf'',
        read = Inr (Bytes (ascii ''%PDF-1.4 one sentence''))\<rparr> w)))
     = [''similarity_score'', ''filename'', ''status'']"
  by (simp add: http_post_def check_plagiarism_def ascii_def strip_def isspace_def
        dict_keys_def)

subsection \<open>The table of documents\<close>

text \<open>
  C8. The claim asks for one row for every content uploaded, and for a \<open>document_id\<close>
  in the response that is the same for the same bytes. Two uploads of the same bytes
  under two names, on an empty table: both get the fixed result, which has no
  \<open>document_id\<close>, and the table is still empty. No sequence of requests changes the
  table.
\<close>

theorem serve_same_bytes_twice:
  "serve [\<lparr>filename = lit ''paper.pdf'', read = Inr (Bytes (ascii ''same bytes''))\<rparr>,
          \<lparr>filename = lit ''copy.pdf'', read = Inr (Bytes (ascii ''same bytes''))\<rparr>] world0
   = ([\<lparr>status_code = 200,
        body = PyDict [(''similarity_score'', PyInt 25),
                       (''filename'', PyStr (lit ''paper.pdf'')),
                       (''status'', PyStr (lit ''success''))]\<rparr>,
       \<lparr>status_code = 200,
        body = PyDict [(''similarity_score'', PyInt 25),
                       (''filename'', PyStr (lit ''copy.pdf'')),
                       (''status'', PyStr (lit ''success''))]\<rparr>], world0)
   \<and> documents world0 = []
   \<and> documents (snd (serve reqs w)) = documents w"
  by (simp add: http_post_def check_plagiarism_def ascii_def strip_def isspace_def
        world0_def serve_frame)

subsection \<open>Temporary files\<close>

text \<open>
  C10. After a request, and after any sequence of requests, the files and the
  directories are the ones that were there before: whatever way the handler ends (the
  fixed result, the empty-content result, the exception handler), no file or directory
  made during the request is left. (The handler makes none: the statements that make
  and remove the temporary directory are never reached.)
\<close>

theorem check_plagiarism_leaves_no_files:
  "files (snd (http_post file w)) = files w \<and> dirs (snd (http_post file w)) = dirs w \<and>
   files (snd (serve reqs w)) = files w \<and> dirs (snd (serve reqs w)) = dirs w"
  by (simp add: http_post_frame serve_frame)

section \<open>The similarity score\<close>

text \<open>
  C4. When one of the two texts is empty after \<open>strip\<close>, \<open>compute_similarity\<close>
  returns \<open>0.0\<close> and the world is unchanged: no \<open>Encode_called\<close> event is recorded,
  the embedding model was not called.
\<close>

theorem compute_similarity_blank:
  "strip text1 = [] \<or> strip text2 = [] \<Longrightarrow>
   compute_similarity self text1 text2 w = (Inr 0, w)"
  by (simp add: compute_similarity_def)

theorem compute_similarity_blank_witness:
  "compute_similarity \<lparr>model = (\<lambda>t. [1])\<rparr> [] (lit ''anything'') world0 = (Inr 0, world0) \<and>
   compute_similarity \<lparr>model = (\<lambda>t. [1])\<rparr> (lit ''   '') (lit ''x'') world0 = (Inr 0, world0)"
proof -
  have a: "strip [] = []"
    by (simp add: strip_def)
  have b: "strip (lit ''   '') = []"
    by (simp add: lit_def strip_def isspace_def)
  show ?thesis
    using compute_similarity_blank [of "[]" "lit ''anything''" "\<lparr>model = (\<lambda>t. [1])\<rparr>" world0]
      compute_similarity_blank [of "lit ''   ''" "lit ''x''" "\<lparr>model = (\<lambda>t. [1])\<rparr>" world0] a b
    by simp
qed

text \<open>
  With two texts that are not blank the model is called on each of them: the events
  of the world do record the calls.
\<close>

lemma compute_similarity_nonblank_events:
  "strip text1 \<noteq> [] \<Longrightarrow> strip text2 \<noteq> [] \<Longrightarrow>
   events (snd (compute_similarity self text1 text2 w)) =
     events w @ [Encode_called text1, Encode_called text2]"
  by (simp add: compute_similarity_def log_event_def Let_def split: sum.splits)

text \<open>
  For two vectors of one length the cosine of the library is the dot product over the
  product of the norms, and the score is the one the specification words (over the
  reals; a vector of zeros gives 0 on both sides).
\<close>

lemma dot_scaled: "dot (map (\<lambda>v. v / a) x) (map (\<lambda>v. v / b) y) = dot x y / (a * b)"
  unfolding dot_def
  by (induction x y rule: list_induct2') (simp_all add: add_divide_distrib)

lemma sum_squares_nonneg: "0 \<le> sum_list (map (\<lambda>v. v * v) (x :: real list))"
  by (induction x) simp_all

lemma row_norm_zero: "row_norm x = 0 \<Longrightarrow> \<forall>v\<in>set x. v = 0"
proof (induction x)
  case Nil
  show ?case by simp
next
  case (Cons a x)
  from Cons.prems have s: "a * a + sum_list (map (\<lambda>v. v * v) x) = 0"
    by (simp add: row_norm_def)
  have "0 \<le> a * a" by simp
  with s sum_squares_nonneg [of x] have "a * a = 0" and "sum_list (map (\<lambda>v. v * v) x) = 0"
    by linarith+
  then have "a = 0" and "row_norm x = 0" by (simp_all add: row_norm_def)
  with Cons.IH show ?case by simp
qed

lemma dot_zero_left: "\<forall>v\<in>set x. v = (0::real) \<Longrightarrow> dot x y = 0"
  unfolding dot_def
  by (induction x y rule: list_induct2') simp_all

lemma dot_zero_right: "\<forall>v\<in>set y. v = (0::real) \<Longrightarrow> dot x y = 0"
  unfolding dot_def
  by (induction x y rule: list_induct2') simp_all

lemma cosine_similarity_formula:
  assumes "x \<noteq> []" and "y \<noteq> []" and "length x = length y"
  shows "cosine_similarity x y = Inr (dot x y / (row_norm x * row_norm y))"
proof -
  have "dot (normalize x) (normalize y) = dot x y / (row_norm x * row_norm y)"
  proof (cases "row_norm x = 0 \<or> row_norm y = 0")
    case True
    then have "dot x y = 0"
      using row_norm_zero dot_zero_left dot_zero_right by blast
    then show ?thesis
      by (simp add: normalize_def Let_def dot_scaled)
  next
    case False
    then show ?thesis
      by (simp add: normalize_def Let_def dot_scaled)
  qed
  with assms show ?thesis
    by (simp add: cosine_similarity_def)
qed

lemma compute_similarity_formula:
  assumes "strip text1 \<noteq> []" and "strip text2 \<noteq> []"
    and "model self text1 \<noteq> []" and "model self text2 \<noteq> []"
    and "length (model self text1) = length (model self text2)"
  shows "fst (compute_similarity self text1 text2 w) =
           Inr (spec_score (model self text1) (model self text2))"
  using assms
  by (simp add: compute_similarity_def Let_def cosine_similarity_formula spec_score_def)

text \<open>
  C5. The claim bounds the score by 0 and 100. For two texts whose embeddings point in
  opposite directions the cosine is \<open>-1\<close> and the score is \<open>-100\<close>: nothing in
  \<open>compute_similarity\<close> clips a negative cosine.
\<close>

theorem compute_similarity_negative:
  "compute_similarity \<lparr>model = (\<lambda>t. if t = lit ''a'' then [1, 0] else [-1, 0])\<rparr>
      (lit ''a'') (lit ''b'') w
     = (Inr (-100), log_event [Encode_called (lit ''a''), Encode_called (lit ''b'')] w)"
  by (simp add: compute_similarity_def cosine_similarity_def normalize_def row_norm_def dot_def
        round2_def lit_def strip_def isspace_def Let_def)

section \<open>The content fingerprint\<close>

lemma read_loop_fed: "read_loop h rest = h\<lparr>fed := fed h @ rest\<rparr>"
proof (induction h rest rule: read_loop.induct)
  case (1 h rest)
  show ?case
  proof (cases "take 4096 rest = []")
    case True
    then have "rest = []" by simp
    then show ?thesis by (simp add: read_loop.simps [of h "[]"])
  next
    case False
    have "read_loop h rest = read_loop (update h (take 4096 rest)) (drop 4096 rest)"
      using False by (simp add: read_loop.simps [of h rest] Let_def)
    also have "\<dots> = (update h (take 4096 rest))
        \<lparr>fed := fed (update h (take 4096 rest)) @ drop 4096 rest\<rparr>"
      using 1 [OF refl False] .
    also have "\<dots> = h\<lparr>fed := fed h @ rest\<rparr>"
      by (simp add: update_def)
    finally show ?thesis .
  qed
qed

lemma hexdigest_read_loop: "hexdigest (read_loop sha256_new data) = hex (sha256 data)"
  by (simp add: read_loop_fed hexdigest_def sha256_new_def)

lemma length_digest_bytes: "length (digest_bytes s) = 32"
  by (induction s rule: digest_bytes.induct) simp

lemma length_sha256: "length (sha256 m) = 32"
  by (simp add: sha256_def length_digest_bytes)

lemma length_hex: "length (hex bs) = 2 * length bs"
  by (induction bs) (simp_all add: hex_def)

lemma hex_digit_in: "n < 16 \<Longrightarrow> hex_digit n \<in> set (lit ''0123456789abcdef'')"
proof -
  assume "n < 16"
  then have "n < length (lit ''0123456789abcdef'')" by (simp add: lit_def)
  then show ?thesis unfolding hex_digit_def by (rule nth_mem)
qed

lemma set_hex: "set (hex bs) \<subseteq> set (lit ''0123456789abcdef'')"
proof (induction bs)
  case Nil
  show ?case by (simp add: hex_def)
next
  case (Cons b bs)
  have "unat b < 256" using unsigned_less [of b] by simp
  then have 1: "unat b div 16 < 16" by simp
  have 2: "unat b mod 16 < 16" by simp
  have "hex (b # bs) = hex_digit (unat b div 16) # hex_digit (unat b mod 16) # hex bs"
    by (simp add: hex_def)
  with Cons hex_digit_in [OF 1] hex_digit_in [OF 2] show ?case by simp
qed

text \<open>The test vector of FIPS 180-4 for the message \<open>abc\<close>.\<close>

lemma sha256_abc:
  "sha256 (ascii ''abc'') =
    [0xba, 0x78, 0x16, 0xbf, 0x8f, 0x01, 0xcf, 0xea, 0x41, 0x41, 0x40, 0xde, 0x5d, 0xae, 0x22,
     0x23, 0xb0, 0x03, 0x61, 0xa3, 0x96, 0x17, 0x7a, 0x9c, 0xb4, 0x10, 0xff, 0x61, 0xf2, 0x00,
     0x15, 0xad]"
  by code_simp

lemma hex_sha256_abc:
  "hex (sha256 (ascii ''abc'')) =
     lit ''ba7816bf8f01cfea414140de5dae2223b00361a396177a9cb410ff61f20015ad''"
  unfolding sha256_abc by (simp add: hex_def hex_digit_def lit_def)

text \<open>
  C6. Two files with the same bytes \<open>B\<close>, in any two worlds and under any two paths,
  have the same fingerprint: the hexadecimal text of the SHA-256 digest of \<open>B\<close>, 64
  characters, each a digit or a letter from \<open>a\<close> to \<open>f\<close>. The worlds stand for
  everything else that may differ between two computations: the other files, the table,
  what happened before.
\<close>

theorem compute_file_hash_deterministic:
  "files w1 p1 = Some B \<and> files w2 p2 = Some B \<longrightarrow>
     fst (compute_file_hash p1 w1) = Inr (hex (sha256 B)) \<and>
     fst (compute_file_hash p2 w2) = fst (compute_file_hash p1 w1) \<and>
     length (hex (sha256 B)) = 64 \<and>
     set (hex (sha256 B)) \<subseteq> set (lit ''0123456789abcdef'')"
  by (simp add: compute_file_hash_def hexdigest_read_loop length_hex length_sha256 set_hex)

theorem compute_file_hash_deterministic_witness:
  "files world_a (lit ''/tmp/a/paper.pdf'') = Some (ascii ''abc'') \<and>
   files world_b (lit ''/srv/b/copy.docx'') = Some (ascii ''abc'') \<and>
   fst (compute_file_hash (lit ''/tmp/a/paper.pdf'') world_a) =
     Inr (lit ''ba7816bf8f01cfea414140de5dae2223b00361a396177a9cb410ff61f20015ad'') \<and>
   fst (compute_file_hash (lit ''/srv/b/copy.docx'') world_b) =
     fst (compute_file_hash (lit ''/tmp/a/paper.pdf'') world_a)"
proof -
  have a: "files world_a (lit ''/tmp/a/paper.pdf'') = Some (ascii ''abc'')"
    by (simp add: world_a_def)
  have b: "files world_b (lit ''/srv/b/copy.docx'') = Some (ascii ''abc'')"
    by (simp add: world_b_def)
  from a b
    compute_file_hash_deterministic
      [of world_a "lit ''/tmp/a/paper.pdf''" "ascii ''abc''" world_b "lit ''/srv/b/copy.docx''"]
  show ?thesis
    by (simp add: hex_sha256_abc)
qed

text \<open>A path that names no file: \<open>open\<close> raises, and the function with it.\<close>

lemma compute_file_hash_missing:
  "files w p = None \<Longrightarrow> fst (compute_file_hash p w) = Inl (OSError (no_such_file p))"
  by (simp add: compute_file_hash_def)

section \<open>Text extraction\<close>

subsection \<open>The extension does not depend on the case of the path\<close>

lemma lower_cp_slash: "lower_cp c = 0x2F \<longleftrightarrow> c = 0x2F"
  by (auto simp add: lower_cp_def)

lemma lower_cp_dot: "lower_cp c = 0x2E \<longleftrightarrow> c = 0x2E"
  by (auto simp add: lower_cp_def)

lemma split_on_lower:
  "split_on 0x2F (map lower_cp p) = map (map lower_cp) (split_on 0x2F p)"
proof (induction p)
  case Nil
  show ?case by simp
next
  case (Cons c cs)
  show ?case
  proof (cases "c = 0x2F")
    case True
    with Cons show ?thesis by (simp add: lower_cp_def)
  next
    case False
    then have "lower_cp c \<noteq> 0x2F" by (simp add: lower_cp_slash)
    with False Cons show ?thesis by (simp split: list.splits)
  qed
qed

lemma lower_part: "map lower_cp part = lit ''.'' \<longleftrightarrow> part = lit ''.''"
proof (cases part)
  case Nil
  then show ?thesis by (simp add: lit_def)
next
  case (Cons c cs)
  have "lower_cp c = 46 \<longleftrightarrow> c = 46" using lower_cp_dot [of c] by simp
  with Cons show ?thesis by (auto simp add: lit_def)
qed

lemma path_name_lower: "path_name (map lower_cp p) = map lower_cp (path_name p)"
proof -
  have "filter (\<lambda>part. part \<noteq> [] \<and> part \<noteq> lit ''.'') (map (map lower_cp) (split_on 0x2F p))
      = map (map lower_cp) (filter (\<lambda>part. part \<noteq> [] \<and> part \<noteq> lit ''.'') (split_on 0x2F p))"
    by (simp add: filter_map o_def lower_part)
  then show ?thesis
    by (simp add: path_name_def split_on_lower rev_map split: list.splits)
qed

lemma rfind_dot_lower: "rfind_dot (map lower_cp name) = rfind_dot name"
proof -
  have "filter (\<lambda>i. map lower_cp name ! i = 0x2E) (rev [0..<length name])
      = filter (\<lambda>i. name ! i = 0x2E) (rev [0..<length name])"
    by (rule filter_cong) (simp_all add: lower_cp_dot)
  then show ?thesis by (simp add: rfind_dot_def)
qed

lemma suffix_lower: "suffix (lower p) = lower (suffix p)"
  by (simp add: suffix_def lower_def path_name_lower Let_def rfind_dot_lower drop_map
      split: option.splits)

lemma lower_suffix_cong: "lower p = lower q \<Longrightarrow> lower (suffix p) = lower (suffix q)"
  by (metis suffix_lower)

subsection \<open>Joining and trimming\<close>

lemma isspace_newline: "isspace 0x0A"
  by (simp add: isspace_def)

lemma strip_append_space:
  assumes "isspace c"
  shows "strip (s @ [c]) = strip s"
proof (cases "\<forall>x\<in>set s. isspace x")
  case True
  with assms have a: "dropWhile isspace (s @ [c]) = []" and b: "dropWhile isspace s = []"
    unfolding dropWhile_eq_Nil_conv by auto
  show ?thesis unfolding strip_def by (simp only: a b)
next
  case False
  then obtain x where "x \<in> set s" and "\<not> isspace x" by blast
  then have "dropWhile isspace (s @ [c]) = dropWhile isspace s @ [c]"
    by (rule dropWhile_append1)
  with assms show ?thesis by (simp add: strip_def)
qed

lemma foldl_pages:
  "foldl (\<lambda>text page. text @ page @ sep) acc pages = acc @ concat (map (\<lambda>p. p @ sep) pages)"
  by (induction pages arbitrary: acc) simp_all

lemma concat_pages_join:
  "pages \<noteq> [] \<Longrightarrow> concat (map (\<lambda>p. p @ sep) pages) = join sep pages @ sep"
  by (induction sep pages rule: join.induct) simp_all

text \<open>
  The loop of \<open>load_pdf\<close> ends every page with a newline; after \<open>strip\<close> the text is
  the pages with newlines between them, trimmed.
\<close>

lemma load_pdf_text:
  "strip (foldl (\<lambda>text page. text @ page @ newline) [] pages) = pages_joined_and_trimmed pages"
proof (cases "pages = []")
  case True
  then show ?thesis by (simp add: pages_joined_and_trimmed_def)
next
  case False
  then have "foldl (\<lambda>text page. text @ page @ newline) [] pages = join newline pages @ [0x0A]"
    by (simp add: foldl_pages concat_pages_join newline_def)
  then show ?thesis
    by (simp add: pages_joined_and_trimmed_def strip_append_space isspace_newline)
qed

lemma lit_pdf_docx: "lit ''.pdf'' \<noteq> lit ''.docx''"
  by (simp add: lit_def)

subsection \<open>\<open>extract_text\<close>\<close>

text \<open>
  C7. \<open>extract_text\<close> looks at the extension in small letters and at nothing else, and
  the extension in small letters is the same for two paths that differ in case only.
  For \<open>.pdf\<close> it is \<open>load_pdf\<close>: when the file is there and the parser gives its
  pages, the result is the page texts with newlines between them, trimmed at the two
  ends. For \<open>.docx\<close> it is \<open>load_docx\<close>: the paragraph texts joined by newlines and
  trimmed. In both cases the file is opened. For every other extension the result is
  a \<open>ValueError\<close> and the world is unchanged: the file was not opened. A
  \<open>ValueError\<close> comes out for an unsupported extension only; a file the parser
  refuses gives a plain \<open>Exception\<close> with the message of the parser.
\<close>

theorem extract_text_dispatch:
  "(lower p = lower q \<longrightarrow> lower (suffix p) = lower (suffix q)) \<and>
   (lower (suffix p) = lit ''.pdf'' \<longrightarrow> extract_text libs p w = load_pdf libs p w) \<and>
   (lower (suffix p) = lit ''.docx'' \<longrightarrow> extract_text libs p w = load_docx libs p w) \<and>
   (lower (suffix p) = lit ''.pdf'' \<and> files w p = Some data \<and> pdf_reader libs data = Inr pages \<longrightarrow>
      fst (extract_text libs p w) = Inr (pages_joined_and_trimmed pages)) \<and>
   (lower (suffix p) = lit ''.docx'' \<and> files w p = Some data \<and>
    docx_document libs data = Inr paragraphs \<longrightarrow>
      fst (extract_text libs p w) = Inr (strip (join newline paragraphs))) \<and>
   (lower (suffix p) = lit ''.pdf'' \<or> lower (suffix p) = lit ''.docx'' \<longrightarrow>
      events (snd (extract_text libs p w)) = events w @ [Open_called p]) \<and>
   (lower (suffix p) \<noteq> lit ''.pdf'' \<and> lower (suffix p) \<noteq> lit ''.docx'' \<longrightarrow>
      extract_text libs p w =
        (Inl (ValueError (lit ''Unsupported file format: '' @ lower (suffix p)
                           @ lit ''. Supported formats: .pdf, .docx'')), w)) \<and>
   ((\<exists>m. fst (extract_text libs p w) = Inl (ValueError m)) \<longleftrightarrow>
      (lower (suffix p) \<noteq> lit ''.pdf'' \<and> lower (suffix p) \<noteq> lit ''.docx'')) \<and>
   (lower (suffix p) = lit ''.pdf'' \<and> files w p = Some data \<and> pdf_reader libs data = Inl e \<longrightarrow>
      fst (extract_text libs p w) = Inl (Exception (lit ''Error reading PDF file: '' @ e))) \<and>
   (lower (suffix p) = lit ''.docx'' \<and> files w p = Some data \<and>
    docx_document libs data = Inl e \<longrightarrow>
      fst (extract_text libs p w) = Inl (Exception (lit ''Error reading DOCX file: '' @ e)))"
proof -
  have pdf: "lower (suffix p) = lit ''.pdf'' \<Longrightarrow> extract_text libs p w = load_pdf libs p w"
    by (simp add: extract_text_def)
  have docx: "lower (suffix p) = lit ''.docx'' \<Longrightarrow> extract_text libs p w = load_docx libs p w"
    using lit_pdf_docx by (simp add: extract_text_def)
  have other: "lower (suffix p) \<noteq> lit ''.pdf'' \<Longrightarrow> lower (suffix p) \<noteq> lit ''.docx'' \<Longrightarrow>
      extract_text libs p w =
        (Inl (ValueError (lit ''Unsupported file format: '' @ lower (suffix p)
                           @ lit ''. Supported formats: .pdf, .docx'')), w)"
    by (simp add: extract_text_def)
  have no_ve_pdf: "\<And>m. fst (load_pdf libs p w) \<noteq> Inl (ValueError m)"
    by (simp add: load_pdf_def Let_def split: option.splits sum.splits)
  have no_ve_docx: "\<And>m. fst (load_docx libs p w) \<noteq> Inl (ValueError m)"
    by (simp add: load_docx_def Let_def split: option.splits sum.splits)
  have ev_pdf: "events (snd (load_pdf libs p w)) = events w @ [Open_called p]"
    by (simp add: load_pdf_def log_event_def Let_def split: option.splits sum.splits)
  have ev_docx: "events (snd (load_docx libs p w)) = events w @ [Open_called p]"
    by (simp add: load_docx_def log_event_def Let_def split: option.splits sum.splits)
  have pdf_ok: "files w p = Some data \<Longrightarrow> pdf_reader libs data = Inr pages \<Longrightarrow>
      fst (load_pdf libs p w) = Inr (pages_joined_and_trimmed pages)"
    by (simp add: load_pdf_def Let_def load_pdf_text)
  have docx_ok: "files w p = Some data \<Longrightarrow> docx_document libs data = Inr paragraphs \<Longrightarrow>
      fst (load_docx libs p w) = Inr (strip (join newline paragraphs))"
    by (simp add: load_docx_def Let_def)
  have pdf_bad: "files w p = Some data \<Longrightarrow> pdf_reader libs data = Inl e \<Longrightarrow>
      fst (load_pdf libs p w) = Inl (Exception (lit ''Error reading PDF file: '' @ e))"
    by (simp add: load_pdf_def Let_def)
  have docx_bad: "files w p = Some data \<Longrightarrow> docx_document libs data = Inl e \<Longrightarrow>
      fst (load_docx libs p w) = Inl (Exception (lit ''Error reading DOCX file: '' @ e))"
    by (simp add: load_docx_def Let_def)
  have c1: "lower p = lower q \<longrightarrow> lower (suffix p) = lower (suffix q)"
    by (rule impI) (rule lower_suffix_cong)
  have c2: "lower (suffix p) = lit ''.pdf'' \<longrightarrow> extract_text libs p w = load_pdf libs p w"
    using pdf by simp
  have c3: "lower (suffix p) = lit ''.docx'' \<longrightarrow> extract_text libs p w = load_docx libs p w"
    using docx by simp
  have c4: "lower (suffix p) = lit ''.pdf'' \<and> files w p = Some data \<and>
      pdf_reader libs data = Inr pages \<longrightarrow>
      fst (extract_text libs p w) = Inr (pages_joined_and_trimmed pages)"
    using pdf pdf_ok by simp
  have c5: "lower (suffix p) = lit ''.docx'' \<and> files w p = Some data \<and>
      docx_document libs data = Inr paragraphs \<longrightarrow>
      fst (extract_text libs p w) = Inr (strip (join newline paragraphs))"
    using docx docx_ok by simp
  have c6: "lower (suffix p) = lit ''.pdf'' \<or> lower (suffix p) = lit ''.docx'' \<longrightarrow>
      events (snd (extract_text libs p w)) = events w @ [Open_called p]"
    using pdf docx ev_pdf ev_docx by auto
  have c7: "lower (suffix p) \<noteq> lit ''.pdf'' \<and> lower (suffix p) \<noteq> lit ''.docx'' \<longrightarrow>
      extract_text libs p w =
        (Inl (ValueError (lit ''Unsupported file format: '' @ lower (suffix p)
                           @ lit ''. Supported formats: .pdf, .docx'')), w)"
    using other by simp
  have c8: "(\<exists>m. fst (extract_text libs p w) = Inl (ValueError m)) \<longleftrightarrow>
      (lower (suffix p) \<noteq> lit ''.pdf'' \<and> lower (suffix p) \<noteq> lit ''.docx'')"
  proof (cases "lower (suffix p) = lit ''.pdf''")
    case True
    with pdf no_ve_pdf show ?thesis by simp
  next
    case False
    show ?thesis
    proof (cases "lower (suffix p) = lit ''.docx''")
      case True
      with docx no_ve_docx show ?thesis by simp
    next
      case d: False
      from other [OF False d] False d show ?thesis by simp
    qed
  qed
  have c9: "lower (suffix p) = lit ''.pdf'' \<and> files w p = Some data \<and>
      pdf_reader libs data = Inl e \<longrightarrow>
      fst (extract_text libs p w) = Inl (Exception (lit ''Error reading PDF file: '' @ e))"
    using pdf pdf_bad by simp
  have c10: "lower (suffix p) = lit ''.docx'' \<and> files w p = Some data \<and>
      docx_document libs data = Inl e \<longrightarrow>
      fst (extract_text libs p w) = Inl (Exception (lit ''Error reading DOCX file: '' @ e))"
    using docx docx_bad by simp
  show ?thesis
    by (intro conjI) (rule c1 c2 c3 c4 c5 c6 c7 c8 c9 c10)+
qed

lemma world1_files:
  "files world1 (lit ''/u/REPORT.PDF'') = Some (ascii ''%PDF ok'') \<and>
   files world1 (lit ''/u/thesis.docx'') = Some (ascii ''PK ok'') \<and>
   files world1 (lit ''/u/broken.pdf'') = Some (ascii ''%PD'') \<and>
   files world1 (lit ''/u/broken.docx'') = Some (ascii ''PK'')"
  by (simp add: world1_def lit_def)

lemma libs1_results:
  "pdf_reader libs1 (ascii ''%PDF ok'') = Inr [lit '' Page one'', lit ''page two ''] \<and>
   docx_document libs1 (ascii ''PK ok'') = Inr [lit ''First'', lit ''Second''] \<and>
   pdf_reader libs1 (ascii ''%PD'') = Inl (lit ''EOF marker not found'') \<and>
   docx_document libs1 (ascii ''PK'') = Inl (lit ''File is not a zip file'')"
  by (simp add: libs1_def ascii_def)

lemma example_suffixes:
  "lower (suffix (lit ''/u/REPORT.PDF'')) = lit ''.pdf'' \<and>
   lower (suffix (lit ''/u/thesis.docx'')) = lit ''.docx'' \<and>
   lower (suffix (lit ''/u/broken.pdf'')) = lit ''.pdf'' \<and>
   lower (suffix (lit ''/u/broken.docx'')) = lit ''.docx'' \<and>
   lower (suffix (lit ''/u/essay.txt'')) = lit ''.txt''"
  by (simp add: lit_def lower_def lower_cp_def suffix_def path_name_def rfind_dot_def)

lemma example_texts:
  "pages_joined_and_trimmed [lit '' Page one'', lit ''page two ''] =
     lit ''Page one'' @ newline @ lit ''page two'' \<and>
   strip (join newline [lit ''First'', lit ''Second'']) = lit ''First'' @ newline @ lit ''Second''"
  by (simp add: pages_joined_and_trimmed_def strip_def isspace_def newline_def lit_def)

lemma example_messages:
  "lit ''Unsupported file format: '' @ lit ''.txt'' @ lit ''. Supported formats: .pdf, .docx''
     = lit ''Unsupported file format: .txt. Supported formats: .pdf, .docx'' \<and>
   lit ''Error reading DOCX file: '' @ lit ''File is not a zip file''
     = lit ''Error reading DOCX file: File is not a zip file'' \<and>
   lit ''Error reading PDF file: '' @ lit ''EOF marker not found''
     = lit ''Error reading PDF file: EOF marker not found'' \<and>
   lit ''.txt'' \<noteq> lit ''.pdf'' \<and> lit ''.txt'' \<noteq> lit ''.docx'' \<and> lit ''.docx'' \<noteq> lit ''.pdf''"
  by (simp add: lit_def)

theorem extract_text_dispatch_witness:
  "fst (extract_text libs1 (lit ''/u/REPORT.PDF'') world1) =
     Inr (lit ''Page one'' @ newline @ lit ''page two'') \<and>
   events (snd (extract_text libs1 (lit ''/u/REPORT.PDF'') world1)) =
     [Open_called (lit ''/u/REPORT.PDF'')] \<and>
   fst (extract_text libs1 (lit ''/u/thesis.docx'') world1) =
     Inr (lit ''First'' @ newline @ lit ''Second'') \<and>
   extract_text libs1 (lit ''/u/essay.txt'') world1 =
     (Inl (ValueError (lit ''Unsupported file format: .txt. Supported formats: .pdf, .docx'')),
      world1) \<and>
   fst (extract_text libs1 (lit ''/u/broken.pdf'') world1) =
     Inl (Exception (lit ''Error reading PDF file: EOF marker not found'')) \<and>
   fst (extract_text libs1 (lit ''/u/broken.docx'') world1) =
     Inl (Exception (lit ''Error reading DOCX file: File is not a zip file''))"
proof -
  have ev: "events world1 = []"
    by (simp add: world1_def)
  note T1 = extract_text_dispatch
    [of "lit ''/u/REPORT.PDF''" "lit ''/u/report.pdf''" libs1 world1 "ascii ''%PDF ok''"
        "[lit '' Page one'', lit ''page two '']" "[]" "[]"]
  note T2 = extract_text_dispatch
    [of "lit ''/u/thesis.docx''" "lit ''/u/thesis.docx''" libs1 world1 "ascii ''PK ok''"
        "[]" "[lit ''First'', lit ''Second'']" "[]"]
  note T3 = extract_text_dispatch
    [of "lit ''/u/essay.txt''" "lit ''/u/essay.txt''" libs1 world1 "[]" "[]" "[]" "[]"]
  note T4 = extract_text_dispatch
    [of "lit ''/u/broken.pdf''" "lit ''/u/broken.pdf''" libs1 world1 "ascii ''%PD''"
        "[]" "[]" "lit ''EOF marker not found''"]
  note T5 = extract_text_dispatch
    [of "lit ''/u/broken.docx''" "lit ''/u/broken.docx''" libs1 world1 "ascii ''PK''"
        "[]" "[]" "lit ''File is not a zip file''"]
  have "fst (extract_text libs1 (lit ''/u/REPORT.PDF'') world1) =
      Inr (pages_joined_and_trimmed [lit '' Page one'', lit ''page two ''])"
    using T1 world1_files libs1_results example_suffixes by blast
  then have 1: "fst (extract_text libs1 (lit ''/u/REPORT.PDF'') world1) =
      Inr (lit ''Page one'' @ newline @ lit ''page two'')"
    using example_texts by simp
  have "events (snd (extract_text libs1 (lit ''/u/REPORT.PDF'') world1)) =
      events world1 @ [Open_called (lit ''/u/REPORT.PDF'')]"
    using T1 example_suffixes by blast
  then have 2: "events (snd (extract_text libs1 (lit ''/u/REPORT.PDF'') world1)) =
      [Open_called (lit ''/u/REPORT.PDF'')]"
    using ev by simp
  have "fst (extract_text libs1 (lit ''/u/thesis.docx'') world1) =
      Inr (strip (join newline [lit ''First'', lit ''Second'']))"
    using T2 world1_files libs1_results example_suffixes by blast
  then have 3: "fst (extract_text libs1 (lit ''/u/thesis.docx'') world1) =
      Inr (lit ''First'' @ newline @ lit ''Second'')"
    using example_texts by simp
  have s: "lower (suffix (lit ''/u/essay.txt'')) \<noteq> lit ''.pdf'' \<and>
      lower (suffix (lit ''/u/essay.txt'')) \<noteq> lit ''.docx''"
    using example_suffixes example_messages by simp
  have "extract_text libs1 (lit ''/u/essay.txt'') world1 =
      (Inl (ValueError (lit ''Unsupported file format: '' @ lower (suffix (lit ''/u/essay.txt''))
                         @ lit ''. Supported formats: .pdf, .docx'')), world1)"
    using T3 s by blast
  then have 4: "extract_text libs1 (lit ''/u/essay.txt'') world1 =
     (Inl (ValueError (lit ''Unsupported file format: .txt. Supported formats: .pdf, .docx'')),
      world1)"
    using example_suffixes example_messages by simp
  have "fst (extract_text libs1 (lit ''/u/broken.pdf'') world1) =
      Inl (Exception (lit ''Error reading PDF file: '' @ lit ''EOF marker not found''))"
    using T4 world1_files libs1_results example_suffixes by blast
  then have 5: "fst (extract_text libs1 (lit ''/u/broken.pdf'') world1) =
     Inl (Exception (lit ''Error reading PDF file: EOF marker not found''))"
    using example_messages by simp
  have "fst (extract_text libs1 (lit ''/u/broken.docx'') world1) =
      Inl (Exception (lit ''Error reading DOCX file: '' @ lit ''File is not a zip file''))"
    using T5 world1_files libs1_results example_suffixes by blast
  then have 6: "fst (extract_text libs1 (lit ''/u/broken.docx'') world1) =
     Inl (Exception (lit ''Error reading DOCX file: File is not a zip file''))"
    using example_messages by simp
  from 1 2 3 4 5 6 show ?thesis by simp
qed

section \<open>Uploads that cannot be read as a document\<close>

text \<open>
  C9. The claim asks for status 422 when the text cannot be extracted. The bytes
  \<open>PK\<close> are no DOCX file: \<open>extract_text\<close> on a file with these bytes raises the
  exception of \<open>load_docx\<close>. The handler answers the upload of the same bytes as
  \<open>broken.docx\<close> with status 200 and the fixed result; it does not call
  \<open>extract_text\<close>. The table is unchanged, as after every request.
\<close>

theorem check_plagiarism_corrupt_docx:
  "extract_text libs1 (lit ''/u/broken.docx'') world1 =
     (Inl (Exception (lit ''Error reading DOCX file: File is not a zip file'')),
      log_event [Open_called (lit ''/u/broken.docx'')] world1) \<and>
   http_post \<lparr>filename = lit ''broken.docx'', read = Inr (Bytes (ascii ''PK''))\<rparr> world1 =
     (\<lparr>status_code = 200,
       body = PyDict [(''similarity_score'', PyInt 25),
                      (''filename'', PyStr (lit ''broken.docx'')),
                      (''status'', PyStr (lit ''success''))]\<rparr>, world1)"
proof -
  have "extract_text libs1 (lit ''/u/broken.docx'') world1 =
      load_docx libs1 (lit ''/u/broken.docx'') world1"
    using example_suffixes example_messages by (simp add: extract_text_def)
  moreover have "load_docx libs1 (lit ''/u/broken.docx'') world1 =
     (Inl (Exception (lit ''Error reading DOCX file: File is not a zip file'')),
      log_event [Open_called (lit ''/u/broken.docx'')] world1)"
    using world1_files libs1_results example_messages by (simp add: load_docx_def)
  moreover have
    "http_post \<lparr>filename = lit ''broken.docx'', read = Inr (Bytes (ascii ''PK''))\<rparr> world1 =
     (\<lparr>status_code = 200,
       body = PyDict [(''similarity_score'', PyInt 25),
                      (''filename'', PyStr (lit ''broken.docx'')),
                      (''status'', PyStr (lit ''success''))]\<rparr>, world1)"
    by (simp add: http_post_def check_plagiarism_def ascii_def strip_def isspace_def)
  ultimately show ?thesis by simp
qed

end
